theory Spec2Isabelle
  imports Complex_Main "HOL-Library.Word"
begin

section \<open>Baltic regulation analysis: the two pipeline scripts\<close>

text \<open>
  The repository holds two scripts with the same pipeline (fetch, normalise, merge,
  analyse, plot): \<^verbatim>\<open>Task2_version13_VM.py\<close> with a constant time window and
  \<^verbatim>\<open>Task2_with variable time_version20_VM.py\<close> with a window read from the operator.
  Functions of the first script keep their names; those of the second script that differ
  carry the suffix \<open>_v20\<close>.

  Conventions of the embedding.
  \<^item> An aware datetime is the instant it denotes, an \<open>int\<close> counting minutes since
    1970-01-01 00:00 UTC (the scripts parse and print with minute precision). Comparing two
    aware datetimes compares instants and their difference is the difference of instants,
    whatever the zone they are displayed in, so \<open>tz_convert('CET')\<close> is the identity on
    this type.
  \<^item> A column of numbers is an int64 column, with numpy's wrap-around arithmetic on 64-bit
    words, or a float64 column. The floats are \<open>real\<close>: their comparisons and absolute
    value are exact, as in IEEE arithmetic; the rounding of their sums, quotients and of
    the conversion of a large integer is not modelled.
  \<^item> What a function prints, requests or writes is returned as a list of events. The
    progress lines (\<open>Fetching imbalance data...\<close>) and the prompts are left out; a
    message is kept by its kind, not by its text.
\<close>

subsection \<open>Data\<close>

type_synonym instant = int

text \<open>
  A JSON number as Python and pandas hold it: an integer literal, taken in the range of
  int64, or a float. (A larger integer literal makes a column of another type and null
  makes a missing value; both are left out.)
\<close>

datatype number = Int64 "64 word" | Float real

fun value_of :: "number \<Rightarrow> real" where
  "value_of (Int64 w) = real_of_int (sint w)"
| "value_of (Float x) = x"

fun is_int :: "number \<Rightarrow> bool" where
  "is_int (Int64 w) = True"
| "is_int (Float x) = False"

text \<open>
  The type of a column built from Python numbers: int64 when all of them are integers,
  float64, with the integers converted, as soon as one is a float.
\<close>

definition as_series :: "number list \<Rightarrow> number list" where
  "as_series xs = (if list_all is_int xs then xs else map (\<lambda>x. Float (value_of x)) xs)"

text \<open>
  numpy's \<open>abs\<close>, \<open>+\<close> and unary \<open>-\<close> on a cell. On int64 they wrap around: the
  absolute value and the negative of \<open>-2^63\<close> are \<open>-2^63\<close>. An int64 column added to a
  float64 column is converted first.
\<close>

fun np_abs :: "number \<Rightarrow> number" where
  "np_abs (Int64 w) = Int64 (if sint w < 0 then - w else w)"
| "np_abs (Float x) = Float \<bar>x\<bar>"

fun np_add :: "number \<Rightarrow> number \<Rightarrow> number" where
  "np_add (Int64 a) (Int64 b) = Int64 (a + b)"
| "np_add x y = Float (value_of x + value_of y)"

fun np_negative :: "number \<Rightarrow> number" where
  "np_negative (Int64 w) = Int64 (- w)"
| "np_negative (Float x) = Float (- x)"

text \<open>
  One record of the \<open>timeseries\<close> list. \<open>from\<close> is absent (\<open>FromMissing\<close>, the cell
  becomes NaT), a string that \<open>pd.to_datetime(...).dt.tz_convert\<close> rejects (\<open>FromBad\<close>)
  or a string denoting an instant. \<open>to\<close> is only ever dropped, so the record keeps
  whether the key is there. \<open>values\<close> is absent (the cell becomes NaN) or a list of numbers.
\<close>

datatype from_field = FromMissing | FromBad | FromAt instant

record raw_point =
  rp_from :: from_field
  rp_to :: bool
  rp_values :: "number list option"

text \<open>
  The value under the \<open>data\<close> key, as far as the scripts look into it: \<open>null\<close>; a
  boolean, number or string, of which only the truth value is used; an array, of which only
  the length is used; an object, with its \<open>timeseries\<close> entry when it has one and the
  number of its other keys.
\<close>

datatype payload =
    Null
  | Scalar bool
  | Array nat
  | Object "raw_point list option" nat

text \<open>Python's truth value, as \<open>if imbalance_data and activation_data\<close> takes it.\<close>

fun truthy :: "payload \<Rightarrow> bool" where
  "truthy Null = False"
| "truthy (Scalar b) = b"
| "truthy (Array n) = (0 < n)"
| "truthy (Object ts others) = (ts \<noteq> None \<or> 0 < others)"

text \<open>
  The parsed top level of a response: not an object, or an object with its \<open>data\<close>
  entry when it has one. The outcome of one GET: \<open>requests.get\<close> raised, or it returned
  a status code and a body that parses as JSON or does not.
\<close>

datatype body = NonObject | TopObject "payload option"

datatype http_outcome = RequestRaised | Replied nat "body option"

record params =
  series_id :: string
  start_date :: instant
  end_date :: instant

text \<open>
  Rows of the normalised tables. The columns are \<open>baltic_imbalance\<close> in one table and
  \<open>up_regulation\<close>, \<open>down_regulation\<close> in the other; the selectors carry a prefix
  because the joined row below has the same column names.
\<close>

datatype imbalance_row = ImbalanceRow (i_timestamp: instant) (i_baltic_imbalance: number)

datatype activation_row =
  ActivationRow (a_timestamp: instant) (a_up_regulation: number) (a_down_regulation: number)

text \<open>
  A DataFrame as the scripts build it: the normalised imbalance table, the normalised
  activation table, or \<open>pd.DataFrame()\<close> with no column at all.
\<close>

datatype table =
    EmptyFrame
  | ImbalanceTable "imbalance_row list"
  | ActivationTable "activation_row list"

fun empty :: "table \<Rightarrow> bool" where
  "empty EmptyFrame = True"
| "empty (ImbalanceTable rows) = (rows = [])"
| "empty (ActivationTable rows) = (rows = [])"

text \<open>
  A row of \<open>analysis_df\<close>. The first script adds the columns \<open>hour\<close> and \<open>day\<close>
  (\<open>temporal\<close>), the second does not (\<open>None\<close>).
\<close>

record analysis_row =
  timestamp :: instant
  baltic_imbalance :: number
  up_regulation :: number
  down_regulation :: number
  imbalance_magnitude :: number
  regulation_magnitude :: number
  appropriate_regulation :: bool
  temporal :: "(int \<times> int) option"

text \<open>
  numpy's float results: a number, infinity (a positive count divided by zero), or the
  not-a-number value that zero divided by zero, the mean of no rows and the maximum of no
  rows evaluate to. numpy warns on a zero divisor and does not raise.
\<close>

datatype npfloat = Finite real | PosInf | NaN

record summary =
  total_periods :: nat
  effective_periods :: nat
  effectiveness :: npfloat
  mean_imbalance_magnitude :: npfloat
  max_imbalance :: npfloat
  min_imbalance :: npfloat
  mean_regulation_magnitude :: npfloat
  total_imbalance_energy :: number
  total_regulation_energy :: number

record figure =
  imbalance_line :: "(instant \<times> number) list"
  up_line :: "(instant \<times> number) list"
  down_line :: "(instant \<times> number) list"
  xlim :: "instant \<times> instant"

datatype message =
    Banner
  | AnalysisPeriod instant instant
  | ErrorFetching
  | Processed string table
  | ErrorProcessing string
  | VisualizationSaved
  | ErrorVisualization
  | RegulationAnalysis summary
  | AnalysisSaved
  | ErrorAnalysis
  | NoDataAvailable
  | FailedToFetch
  | InvalidFormat
  | EndNotAfterStart
  | RangeTooLong

datatype event =
    Print message
  | Get params
  | Savefig figure
  | ToCsv "analysis_row list"

subsection \<open>fetch_data\<close>

text \<open>
  \<open>response.raise_for_status()\<close> raises for the client and server error codes.
\<close>

definition raise_for_status :: "nat \<Rightarrow> bool" where
  "raise_for_status status = (400 \<le> status \<and> status < 600)"

text \<open>
  One call of \<open>requests.get\<close>, whose outcome is the second argument. Every exception
  (from the request, the status check or the JSON parser) prints and returns \<open>None\<close>.
  Both scripts have the same text.
\<close>

definition fetch_data :: "params \<Rightarrow> http_outcome \<Rightarrow> payload \<times> event list" where
  "fetch_data ps outcome =
     (case outcome of
        RequestRaised \<Rightarrow> (Null, [Get ps, Print ErrorFetching])
      | Replied status parsed \<Rightarrow>
          if raise_for_status status then (Null, [Get ps, Print ErrorFetching])
          else (case parsed of
                  None \<Rightarrow> (Null, [Get ps, Print ErrorFetching])
                | Some NonObject \<Rightarrow> (Null, [Get ps])
                | Some (TopObject None) \<Rightarrow> (Null, [Get ps])
                | Some (TopObject (Some v)) \<Rightarrow> (v, [Get ps])))"

fun is_get :: "event \<Rightarrow> bool" where
  "is_get (Get ps) = True"
| "is_get other = False"

subsection \<open>The window of the first script\<close>

text \<open>
  \<open>2024-09-23 00:00\<close> and \<open>2024-09-29 00:00\<close> localised in the zone CET, which is on
  summer time (UTC+2) on both days: 2024-09-22 22:00 UTC and 2024-09-28 22:00 UTC.
\<close>

definition start_date_cet :: instant where
  "start_date_cet = 28784040"

definition end_date_cet :: instant where
  "end_date_cet = 28792680"

text \<open>
  The request asks for three more hours on each side. Of the query parameters the model
  keeps the series id and the two dates; the others are the same constants in every request.
\<close>

definition request_params :: "string \<Rightarrow> instant \<Rightarrow> instant \<Rightarrow> params" where
  "request_params name s e = \<lparr>series_id = name, start_date = s - 180, end_date = e + 180\<rparr>"

definition imbalance_params :: params where
  "imbalance_params = request_params ''imbalance_volumes'' start_date_cet end_date_cet"

definition activation_params :: params where
  "activation_params = request_params ''normal_activations_total'' start_date_cet end_date_cet"

subsection \<open>process_data\<close>

datatype py_error = AttributeError | KeyError | ValueError | TypeError | IndexError

text \<open>\<open>data.get('timeseries', [])\<close>: only a dict has \<open>get\<close>.\<close>

fun get_timeseries :: "payload \<Rightarrow> py_error + raw_point list" where
  "get_timeseries (Object (Some ts) others) = Inr ts"
| "get_timeseries (Object None others) = Inr []"
| "get_timeseries other = Inl AttributeError"

text \<open>
  \<open>pd.DataFrame(timeseries)\<close> has a column for a key as soon as one record has the key;
  the records without it get an empty cell.
\<close>

definition has_from :: "raw_point list \<Rightarrow> bool" where
  "has_from ts = (\<not> list_all (\<lambda>p. rp_from p = FromMissing) ts)"

definition has_to :: "raw_point list \<Rightarrow> bool" where
  "has_to ts = (\<not> list_all (\<lambda>p. \<not> rp_to p) ts)"

definition has_values :: "raw_point list \<Rightarrow> bool" where
  "has_values ts = (\<not> list_all (\<lambda>p. rp_values p = None) ts)"

text \<open>
  \<open>df['timestamp'] = pd.to_datetime(df['from']).dt.tz_convert('CET')\<close>: a KeyError
  without the column, an exception when one string is rejected, otherwise the index of the
  table, with NaT (\<open>None\<close>) where \<open>from\<close> is absent.
\<close>

fun stamp :: "raw_point \<Rightarrow> instant option \<times> number list option" where
  "stamp p = (case rp_from p of FromAt t \<Rightarrow> (Some t, rp_values p) | other \<Rightarrow> (None, rp_values p))"

definition to_datetime ::
  "raw_point list \<Rightarrow> py_error + (instant option \<times> number list option) list" where
  "to_datetime ts =
     (if \<not> has_from ts then Inl KeyError
      else if \<not> list_all (\<lambda>p. rp_from p \<noteq> FromBad) ts then Inl ValueError
      else Inr (map stamp ts))"

text \<open>
  \<open>df[(df.index >= start_date_cet) & (df.index < end_date_cet)]\<close>: the rows whose index
  is in the window, in order. A comparison with NaT is false, so a row without \<open>from\<close>
  is not kept.
\<close>

fun select_window ::
  "instant \<Rightarrow> instant \<Rightarrow> (instant option \<times> number list option) list
     \<Rightarrow> (instant \<times> number list option) list" where
  "select_window s e [] = []"
| "select_window s e ((None, vs) # rows) = select_window s e rows"
| "select_window s e ((Some t, vs) # rows) =
     (if s \<le> t \<and> t < e then (t, vs) # select_window s e rows else select_window s e rows)"

text \<open>\<open>lambda x: x[0]\<close> and \<open>lambda x: x[1]\<close> on a cell of the column \<open>values\<close>.\<close>

fun item0 :: "number list option \<Rightarrow> py_error + number" where
  "item0 None = Inl TypeError"
| "item0 (Some []) = Inl IndexError"
| "item0 (Some (x # xs)) = Inr x"

fun item1 :: "number list option \<Rightarrow> py_error + number" where
  "item1 None = Inl TypeError"
| "item1 (Some []) = Inl IndexError"
| "item1 (Some [x]) = Inl IndexError"
| "item1 (Some (x # y # xs)) = Inr y"

text \<open>\<open>Series.apply\<close>: the rows in order, stopping at the first exception.\<close>

fun apply_series :: "('a \<Rightarrow> py_error + 'b) \<Rightarrow> 'a list \<Rightarrow> py_error + 'b list" where
  "apply_series f [] = Inr []"
| "apply_series f (x # xs) =
     (case f x of
        Inl err \<Rightarrow> Inl err
      | Inr y \<Rightarrow> (case apply_series f xs of Inl err \<Rightarrow> Inl err | Inr ys \<Rightarrow> Inr (y # ys)))"

text \<open>
  The body of the \<open>try\<close> block, with the window as arguments. The filter comes before
  the extraction, so only the rows inside the window have their \<open>values\<close> read.
  The result of \<open>apply\<close> becomes a column of one type.
  \<open>df.drop(['from', 'to', 'values'], axis=1)\<close> raises when a column is not there.
\<close>

definition try_process_data ::
  "payload \<Rightarrow> string \<Rightarrow> instant \<Rightarrow> instant \<Rightarrow> py_error + table" where
  "try_process_data data data_type s e =
     (case get_timeseries data of
        Inl err \<Rightarrow> Inl err
      | Inr ts \<Rightarrow>
         (case to_datetime ts of
            Inl err \<Rightarrow> Inl err
          | Inr stamped \<Rightarrow>
             (let df = select_window s e stamped in
              if data_type = ''Imbalance'' then
                (if \<not> has_values ts then Inl KeyError
                 else case apply_series item0 (map snd df) of
                        Inl err \<Rightarrow> Inl err
                      | Inr col \<Rightarrow>
                          if \<not> has_to ts then Inl KeyError
                          else Inr (ImbalanceTable
                                 (map (\<lambda>(t, v). ImbalanceRow t v)
                                    (zip (map fst df) (as_series col)))))
              else
                (if \<not> has_values ts then Inl KeyError
                 else case apply_series item0 (map snd df) of
                        Inl err \<Rightarrow> Inl err
                      | Inr ups \<Rightarrow>
                         (case apply_series item1 (map snd df) of
                            Inl err \<Rightarrow> Inl err
                          | Inr downs \<Rightarrow>
                              if \<not> has_to ts then Inl KeyError
                              else Inr (ActivationTable
                                     (map (\<lambda>(t, u, d). ActivationRow t u d)
                                        (zip (map fst df)
                                           (zip (as_series ups) (as_series downs))))))))))"

text \<open>
  \<open>process_data\<close> of the second script: the window is an argument. Any exception prints
  and gives \<open>pd.DataFrame()\<close>.
\<close>

definition process_data_v20 ::
  "payload \<Rightarrow> string \<Rightarrow> instant \<Rightarrow> instant \<Rightarrow> table \<times> event list" where
  "process_data_v20 data data_type s e =
     (case try_process_data data data_type s e of
        Inl err \<Rightarrow> (EmptyFrame, [Print (ErrorProcessing data_type)])
      | Inr df \<Rightarrow> (df, [Print (Processed data_type df)]))"

text \<open>\<open>process_data\<close> of the first script: the same text, on the constant window.\<close>

definition process_data :: "payload \<Rightarrow> string \<Rightarrow> table \<times> event list" where
  "process_data data data_type =
     (case try_process_data data data_type start_date_cet end_date_cet of
        Inl err \<Rightarrow> (EmptyFrame, [Print (ErrorProcessing data_type)])
      | Inr df \<Rightarrow> (df, [Print (Processed data_type df)]))"

fun timestamps :: "table \<Rightarrow> instant list" where
  "timestamps EmptyFrame = []"
| "timestamps (ImbalanceTable rows) = map i_timestamp rows"
| "timestamps (ActivationTable rows) = map a_timestamp rows"

fun row_count :: "table \<Rightarrow> nat" where
  "row_count t = length (timestamps t)"

subsection \<open>create_visualization\<close>

text \<open>
  The three lines handed to \<open>plt.plot\<close> and the limits of the x axis; the styling is
  the same constant text in both scripts. A table without the column read from it raises,
  and the exception is printed. The first script plots \<open>-activation_df['down_regulation']\<close>.
\<close>

definition create_visualization :: "table \<Rightarrow> table \<Rightarrow> event list" where
  "create_visualization imbalance_df activation_df =
     (case (imbalance_df, activation_df) of
        (ImbalanceTable irows, ActivationTable arows) \<Rightarrow>
          [Savefig \<lparr>imbalance_line = map (\<lambda>r. (i_timestamp r, i_baltic_imbalance r)) irows,
                    up_line = map (\<lambda>r. (a_timestamp r, a_up_regulation r)) arows,
                    down_line = map (\<lambda>r. (a_timestamp r, np_negative (a_down_regulation r))) arows,
                    xlim = (start_date_cet, end_date_cet)\<rparr>,
           Print VisualizationSaved]
      | other \<Rightarrow> [Print ErrorVisualization])"

text \<open>The second script plots \<open>activation_df['down_regulation']\<close> as it is.\<close>

definition create_visualization_v20 ::
  "table \<Rightarrow> table \<Rightarrow> instant \<Rightarrow> instant \<Rightarrow> event list" where
  "create_visualization_v20 imbalance_df activation_df s e =
     (case (imbalance_df, activation_df) of
        (ImbalanceTable irows, ActivationTable arows) \<Rightarrow>
          [Savefig \<lparr>imbalance_line = map (\<lambda>r. (i_timestamp r, i_baltic_imbalance r)) irows,
                    up_line = map (\<lambda>r. (a_timestamp r, a_up_regulation r)) arows,
                    down_line = map (\<lambda>r. (a_timestamp r, a_down_regulation r)) arows,
                    xlim = (s, e)\<rparr>,
           Print VisualizationSaved]
      | other \<Rightarrow> [Print ErrorVisualization])"

subsection \<open>analyze_regulation\<close>

text \<open>
  \<open>pd.merge(..., left_index=True, right_index=True, how='inner')\<close>: every pair of a left
  row and a right row with the same index value, in the order of the left table.
\<close>

definition merge ::
  "imbalance_row list \<Rightarrow> activation_row list \<Rightarrow> (imbalance_row \<times> activation_row) list" where
  "merge irows arows =
     concat (map (\<lambda>l. map (Pair l) (filter (\<lambda>r. a_timestamp r = i_timestamp l) arows)) irows)"

text \<open>
  The derived columns, in the arithmetic of the columns. The comparisons with zero are
  exact on both column types. In Python \<open>&\<close> binds tighter than \<open>|\<close>, so the
  indicator is the disjunction of the two conjunctions.
\<close>

fun derive :: "imbalance_row \<times> activation_row \<Rightarrow> analysis_row" where
  "derive (l, r) =
     \<lparr>timestamp = i_timestamp l,
      baltic_imbalance = i_baltic_imbalance l,
      up_regulation = a_up_regulation r,
      down_regulation = a_down_regulation r,
      imbalance_magnitude = np_abs (i_baltic_imbalance l),
      regulation_magnitude = np_add (a_up_regulation r) (a_down_regulation r),
      appropriate_regulation =
        ((value_of (i_baltic_imbalance l) > 0 \<and> value_of (a_down_regulation r) > 0) \<or>
         (value_of (i_baltic_imbalance l) < 0 \<and> value_of (a_up_regulation r) > 0)),
      temporal = None\<rparr>"

text \<open>
  \<open>analysis_df.index.hour\<close> and \<open>analysis_df.index.date\<close> read the civil clock of the
  zone CET, which belongs to pytz: it is a parameter \<open>clock\<close>, giving the hour and the day
  of an instant. \<open>cest_clock\<close> is that clock on summer time, which is the zone's time over
  the whole window of the first script.
\<close>

definition add_temporal :: "(instant \<Rightarrow> int \<times> int) \<Rightarrow> analysis_row \<Rightarrow> analysis_row" where
  "add_temporal clock row = row\<lparr>temporal := Some (clock (timestamp row))\<rparr>"

definition cest_clock :: "instant \<Rightarrow> int \<times> int" where
  "cest_clock t = (((t + 120) div 60) mod 24, (t + 120) div 1440)"

text \<open>
  The operations of the summary. The mean is taken in floats, the maximum and the minimum
  are cells of the column, and the sum of an int64 column is an int64 sum, which wraps.
\<close>

definition true_divide :: "nat \<Rightarrow> nat \<Rightarrow> npfloat" where
  "true_divide a b =
     (if b \<noteq> 0 then Finite (real a / real b) else if a = 0 then NaN else PosInf)"

fun scale :: "npfloat \<Rightarrow> real \<Rightarrow> npfloat" where
  "scale (Finite x) c = Finite (x * c)"
| "scale PosInf c = PosInf"
| "scale NaN c = NaN"

fun series_mean :: "real list \<Rightarrow> npfloat" where
  "series_mean [] = NaN"
| "series_mean (x # xs) = Finite (sum_list (x # xs) / real (length (x # xs)))"

fun series_max :: "real list \<Rightarrow> npfloat" where
  "series_max [] = NaN"
| "series_max (x # xs) = Finite (fold max xs x)"

fun series_min :: "real list \<Rightarrow> npfloat" where
  "series_min [] = NaN"
| "series_min (x # xs) = Finite (fold min xs x)"

definition series_sum :: "number list \<Rightarrow> number" where
  "series_sum xs = fold np_add xs (Int64 0)"

text \<open>
  The summary statistics, in the order of the source. The quotient is taken whatever
  \<open>total_periods\<close> is.
\<close>

definition summarize :: "analysis_row list \<Rightarrow> summary" where
  "summarize analysis_df =
     (let total = length analysis_df;
          effective = length (filter appropriate_regulation analysis_df)
      in \<lparr>total_periods = total,
          effective_periods = effective,
          effectiveness = scale (true_divide effective total) 100,
          mean_imbalance_magnitude =
            series_mean (map (value_of \<circ> imbalance_magnitude) analysis_df),
          max_imbalance = series_max (map (value_of \<circ> baltic_imbalance) analysis_df),
          min_imbalance = series_min (map (value_of \<circ> baltic_imbalance) analysis_df),
          mean_regulation_magnitude =
            series_mean (map (value_of \<circ> regulation_magnitude) analysis_df),
          total_imbalance_energy = series_sum (map imbalance_magnitude analysis_df),
          total_regulation_energy = series_sum (map regulation_magnitude analysis_df)\<rparr>)"

text \<open>
  \<open>analyze_regulation\<close> of the first script, which adds \<open>hour\<close> and \<open>day\<close> before the
  summary. With a table that lacks a column the body raises; the exception is printed and
  \<open>pd.DataFrame()\<close>, here the empty list of rows, is returned.
\<close>

definition analyze_regulation ::
  "(instant \<Rightarrow> int \<times> int) \<Rightarrow> table \<Rightarrow> table \<Rightarrow> analysis_row list \<times> event list" where
  "analyze_regulation clock imbalance_df activation_df =
     (case (imbalance_df, activation_df) of
        (ImbalanceTable irows, ActivationTable arows) \<Rightarrow>
          (let analysis_df = map (add_temporal clock) (map derive (merge irows arows))
           in (analysis_df,
               [Print (RegulationAnalysis (summarize analysis_df)),
                ToCsv analysis_df,
                Print AnalysisSaved]))
      | other \<Rightarrow> ([], [Print ErrorAnalysis]))"

definition analyze_regulation_v20 :: "table \<Rightarrow> table \<Rightarrow> analysis_row list \<times> event list" where
  "analyze_regulation_v20 imbalance_df activation_df =
     (case (imbalance_df, activation_df) of
        (ImbalanceTable irows, ActivationTable arows) \<Rightarrow>
          (let analysis_df = map derive (merge irows arows)
           in (analysis_df,
               [Print (RegulationAnalysis (summarize analysis_df)),
                ToCsv analysis_df,
                Print AnalysisSaved]))
      | other \<Rightarrow> ([], [Print ErrorAnalysis]))"

subsection \<open>main of the first script\<close>

text \<open>The two GETs have their outcomes as arguments.\<close>

definition main ::
  "(instant \<Rightarrow> int \<times> int) \<Rightarrow> http_outcome \<Rightarrow> http_outcome \<Rightarrow> event list" where
  "main clock outcome1 outcome2 =
     (let (imbalance_data, fetched1) = fetch_data imbalance_params outcome1;
          (activation_data, fetched2) = fetch_data activation_params outcome2
      in [Print (AnalysisPeriod start_date_cet end_date_cet)] @ fetched1 @ fetched2 @
         (if truthy imbalance_data \<and> truthy activation_data then
            (let (imbalance_df, processed1) = process_data imbalance_data ''Imbalance'';
                 (activation_df, processed2) = process_data activation_data ''Activation''
             in processed1 @ processed2 @
                (if \<not> empty imbalance_df \<and> \<not> empty activation_df then
                   create_visualization imbalance_df activation_df @
                   snd (analyze_regulation clock imbalance_df activation_df)
                 else [Print NoDataAvailable]))
          else [Print FailedToFetch]))"

subsection \<open>The second script: get_valid_datetime and main\<close>

text \<open>
  A line typed by the operator, as \<open>strptime\<close> and \<open>localize\<close> read it: rejected with a
  ValueError, or an instant. The lines still to come are a list; when it runs out the
  prompt is left waiting and the function has no result.
\<close>

datatype entry = Malformed | Wellformed instant

text \<open>\<open>timedelta.days\<close>: the whole days of a span, rounded down.\<close>

definition days :: "int \<Rightarrow> int" where
  "days delta = delta div 1440"

text \<open>
  \<open>global_start\<close> is the module variable \<open>start_date_cet\<close>, \<open>None\<close> while it is not in
  \<open>globals()\<close>. The result is the accepted instant, the lines left and what was printed.
\<close>

fun retry :: "message \<Rightarrow> (instant \<times> entry list \<times> event list) option
                \<Rightarrow> (instant \<times> entry list \<times> event list) option" where
  "retry m None = None"
| "retry m (Some (d, rest, printed)) = Some (d, rest, Print m # printed)"

fun get_valid_datetime ::
  "bool \<Rightarrow> instant option \<Rightarrow> entry list \<Rightarrow> (instant \<times> entry list \<times> event list) option" where
  "get_valid_datetime is_start global_start [] = None"
| "get_valid_datetime is_start global_start (Malformed # rest) =
     retry InvalidFormat (get_valid_datetime is_start global_start rest)"
| "get_valid_datetime is_start global_start (Wellformed date_obj # rest) =
     (case (is_start, global_start) of
        (False, Some start) \<Rightarrow>
          if date_obj \<le> start then
            retry EndNotAfterStart (get_valid_datetime is_start global_start rest)
          else if days (date_obj - start) > 30 then
            retry RangeTooLong (get_valid_datetime is_start global_start rest)
          else Some (date_obj, rest, [])
      | other \<Rightarrow> Some (date_obj, rest, []))"

text \<open>
  One run of \<open>main\<close>: the events and the lines left, or no result when the operator never
  gives a valid window. The start is stored in the module variable before the end is asked.
\<close>

definition main_v20 ::
  "entry list \<Rightarrow> http_outcome \<Rightarrow> http_outcome \<Rightarrow> (event list \<times> entry list) option" where
  "main_v20 entries outcome1 outcome2 =
     (case get_valid_datetime True None entries of
        None \<Rightarrow> None
      | Some (s, entries1, printed1) \<Rightarrow>
         (case get_valid_datetime False (Some s) entries1 of
            None \<Rightarrow> None
          | Some (e, entries2, printed2) \<Rightarrow>
             (let (imbalance_data, fetched1) =
                    fetch_data (request_params ''imbalance_volumes'' s e) outcome1;
                  (activation_data, fetched2) =
                    fetch_data (request_params ''normal_activations_total'' s e) outcome2
              in Some
                 ([Print Banner] @ printed1 @ printed2 @ [Print (AnalysisPeriod s e)] @
                  fetched1 @ fetched2 @
                  (if truthy imbalance_data \<and> truthy activation_data then
                     (let (imbalance_df, processed1) =
                            process_data_v20 imbalance_data ''Imbalance'' s e;
                          (activation_df, processed2) =
                            process_data_v20 activation_data ''Activation'' s e
                      in processed1 @ processed2 @
                         (if \<not> empty imbalance_df \<and> \<not> empty activation_df then
                            create_visualization_v20 imbalance_df activation_df s e @
                            snd (analyze_regulation_v20 imbalance_df activation_df)
                          else [Print NoDataAvailable]))
                   else [Print FailedToFetch]),
                  entries2))))"

subsection \<open>Notions used to state the properties\<close>

text \<open>
  A payload with expected fields missing, or empty: not an object, an object without
  \<open>timeseries\<close>, an empty \<open>timeseries\<close>, or one where no record has \<open>from\<close>, where
  none has \<open>values\<close> or where none has \<open>to\<close>.
\<close>

fun lacks_expected_fields :: "payload \<Rightarrow> bool" where
  "lacks_expected_fields (Object (Some ts) others) =
     (ts = [] \<or> \<not> has_from ts \<or> \<not> has_values ts \<or> \<not> has_to ts)"
| "lacks_expected_fields (Object None others) = True"
| "lacks_expected_fields other = True"

text \<open>
  What separates the outputs of the two scripts: the sign of the plotted down-regulation
  line and the two temporal columns of the CSV.
\<close>

definition drop_temporal :: "analysis_row \<Rightarrow> analysis_row" where
  "drop_temporal row = row\<lparr>temporal := None\<rparr>"

fun as_v20 :: "event \<Rightarrow> event" where
  "as_v20 (Savefig fig) =
     Savefig (fig\<lparr>down_line := map (\<lambda>(t, y). (t, np_negative y)) (down_line fig)\<rparr>)"
| "as_v20 (ToCsv rows) = ToCsv (map drop_temporal rows)"
| "as_v20 (Print m) = Print m"
| "as_v20 (Get ps) = Get ps"

fun figures :: "event list \<Rightarrow> figure list" where
  "figures [] = []"
| "figures (Savefig fig # evs) = fig # figures evs"
| "figures (ev # evs) = figures evs"

fun csv_files :: "event list \<Rightarrow> analysis_row list list" where
  "csv_files [] = []"
| "csv_files (ToCsv rows # evs) = rows # csv_files evs"
| "csv_files (ev # evs) = csv_files evs"

section \<open>Properties\<close>

subsection \<open>Auxiliary facts\<close>

lemma derive_columns:
  "imbalance_magnitude (derive p) = np_abs (baltic_imbalance (derive p))"
  "regulation_magnitude (derive p) =
     np_add (up_regulation (derive p)) (down_regulation (derive p))"
  "appropriate_regulation (derive p) =
     ((value_of (baltic_imbalance (derive p)) > 0 \<and> value_of (down_regulation (derive p)) > 0) \<or>
      (value_of (baltic_imbalance (derive p)) < 0 \<and> value_of (up_regulation (derive p)) > 0))"
  by (cases p; simp)+

lemma np_negative_twice:
  "np_negative (np_negative y) = y"
  by (cases y) simp_all

lemma np_abs_value:
  assumes "x \<noteq> Int64 (- 9223372036854775808)"
  shows "value_of (np_abs x) = \<bar>value_of x\<bar>"
proof (cases x)
  case (Int64 w)
  show ?thesis
  proof (cases "sint w < 0")
    case True
    have "sint w \<noteq> - (2 ^ 63)"
    proof
      assume "sint w = - (2 ^ 63)"
      then have "word_of_int (sint w) = (word_of_int (- (2 ^ 63)) :: 64 word)"
        by simp
      then have "w = - 9223372036854775808"
        by simp
      with assms Int64 show False by simp
    qed
    moreover have "- (2 ^ 63) \<le> sint w"
      using sint_ge [of w] by simp
    ultimately have "- (2 ^ 63) \<le> - sint w" "- sint w < 2 ^ 63"
      using True by simp_all
    then have "sint (- w) = - sint w"
      by (simp add: sint_word_minus signed_take_bit_int_eq_self)
    with True Int64 show ?thesis by (simp del: of_int_sint)
  next
    case False
    with Int64 show ?thesis by (simp del: of_int_sint)
  qed
next
  case (Float r)
  then show ?thesis by simp
qed

lemma np_add_value:
  assumes "- 9223372036854775808 \<le> value_of x + value_of y"
    and "value_of x + value_of y < 9223372036854775808"
  shows "value_of (np_add x y) = value_of x + value_of y"
proof (cases "is_int x \<and> is_int y")
  case True
  then obtain a b where xy: "x = Int64 a" "y = Int64 b"
    by (cases x; cases y) simp_all
  from assms have "real_of_int (- (2 ^ 63)) \<le> real_of_int (sint a + sint b)"
    "real_of_int (sint a + sint b) < real_of_int (2 ^ 63)"
    by (simp_all add: xy)
  then have "- (2 ^ 63) \<le> sint a + sint b" "sint a + sint b < 2 ^ 63"
    by (simp_all only: of_int_le_iff of_int_less_iff)
  then have "sint (a + b) = sint a + sint b"
    by (simp add: sint_word_add signed_take_bit_int_eq_self)
  with xy show ?thesis by simp
next
  case False
  then show ?thesis
    by (cases x; cases y) simp_all
qed

lemma drop_add_derive:
  "drop_temporal (add_temporal clock (derive p)) = derive p"
  by (cases p) (simp add: drop_temporal_def add_temporal_def)

lemma merge_single:
  "merge [l] [r] = (if a_timestamp r = i_timestamp l then [(l, r)] else [])"
  by (simp add: merge_def)

declare derive.simps [simp del]

lemma add_temporal_columns:
  "baltic_imbalance (add_temporal clock row) = baltic_imbalance row"
  "up_regulation (add_temporal clock row) = up_regulation row"
  "down_regulation (add_temporal clock row) = down_regulation row"
  "imbalance_magnitude (add_temporal clock row) = imbalance_magnitude row"
  "regulation_magnitude (add_temporal clock row) = regulation_magnitude row"
  "appropriate_regulation (add_temporal clock row) = appropriate_regulation row"
  "timestamp (add_temporal clock row) = timestamp row"
  by (simp_all add: add_temporal_def)

lemma analysis_rows:
  assumes "row \<in> set (fst (analyze_regulation clock imbalance_df activation_df))"
  shows "\<exists>p. row = add_temporal clock (derive p)"
  using assms
  by (auto simp: analyze_regulation_def Let_def split: table.splits)

lemma analysis_rows_v20:
  assumes "row \<in> set (fst (analyze_regulation_v20 imbalance_df activation_df))"
  shows "\<exists>p. row = derive p"
  using assms
  by (auto simp: analyze_regulation_v20_def Let_def split: table.splits)

lemma summarize_add_temporal:
  "summarize (map (add_temporal clock \<circ> f) xs) = summarize (map f xs)"
  by (simp add: summarize_def Let_def comp_def add_temporal_def filter_map)

lemma fetch_data_ok:
  "\<not> raise_for_status status \<Longrightarrow>
     fetch_data ps (Replied status (Some (TopObject (Some v)))) = (v, [Get ps])"
  by (simp add: fetch_data_def)

lemma fetch_data_cases:
  "fst (fetch_data ps outcome) \<noteq> Null \<Longrightarrow>
     \<exists>status. \<not> raise_for_status status \<and>
       outcome = Replied status (Some (TopObject (Some (fst (fetch_data ps outcome)))))"
  by (auto simp: fetch_data_def split: http_outcome.splits option.splits body.splits if_splits)

lemma select_window_index:
  "x \<in> set (select_window s e rows) \<Longrightarrow> s \<le> fst x \<and> fst x < e"
  by (induction s e rows rule: select_window.induct) (auto split: if_splits)

lemma try_process_data_window:
  assumes "try_process_data data data_type s e = Inr df" and "t \<in> set (timestamps df)"
  shows "s \<le> t \<and> t < e"
proof -
  from assms obtain rows where "t \<in> fst ` set (select_window s e rows)"
    by (auto simp: try_process_data_def Let_def image_iff
             split: sum.splits if_splits dest!: set_zip_leftD)
  then show ?thesis
    using select_window_index by blast
qed

lemma process_data_v20_fixed:
  "process_data_v20 data data_type start_date_cet end_date_cet = process_data data data_type"
  by (simp add: process_data_v20_def process_data_def)

lemma window_entries:
  "get_valid_datetime True None (Wellformed start_date_cet # Wellformed end_date_cet # rest) =
     Some (start_date_cet, Wellformed end_date_cet # rest, [])"
  "get_valid_datetime False (Some start_date_cet) (Wellformed end_date_cet # rest) =
     Some (end_date_cet, rest, [])"
  by (simp_all add: start_date_cet_def end_date_cet_def days_def)

lemma as_v20_fetch:
  "map as_v20 (snd (fetch_data ps outcome)) = snd (fetch_data ps outcome)"
  by (simp add: fetch_data_def split: http_outcome.splits option.splits body.splits)

lemma as_v20_process:
  "map as_v20 (snd (process_data data data_type)) = snd (process_data data data_type)"
  by (simp add: process_data_def split: sum.splits)

lemma as_v20_visualization:
  "map as_v20 (create_visualization imbalance_df activation_df) =
     create_visualization_v20 imbalance_df activation_df start_date_cet end_date_cet"
  by (simp add: create_visualization_def create_visualization_v20_def comp_def
           np_negative_twice split: table.splits)

lemma as_v20_analysis:
  "map as_v20 (snd (analyze_regulation clock imbalance_df activation_df)) =
     snd (analyze_regulation_v20 imbalance_df activation_df)"
  by (simp add: analyze_regulation_def analyze_regulation_v20_def Let_def
        summarize_add_temporal drop_add_derive split: table.splits)

lemma end_not_after_start_rejected:
  "e \<le> s \<Longrightarrow> get_valid_datetime False (Some s) (Wellformed e # rest) =
     retry EndNotAfterStart (get_valid_datetime False (Some s) rest)"
  by simp

lemma exactly_30_days_accepted:
  "get_valid_datetime False (Some s) (Wellformed (s + 30 * 1440) # rest) =
     Some (s + 30 * 1440, rest, [])"
  by (simp add: days_def)

lemma range_rejected_iff:
  "s < e \<Longrightarrow> get_valid_datetime False (Some s) (Wellformed e # rest) =
     (if 31 * 1440 \<le> e - s then retry RangeTooLong (get_valid_datetime False (Some s) rest)
      else Some (e, rest, []))"
  by (auto simp: days_def)

lemma length_merge:
  "length (merge irows arows) =
     (\<Sum>l\<leftarrow>irows. length (filter (\<lambda>r. a_timestamp r = i_timestamp l) arows))"
  by (simp add: merge_def length_concat comp_def)

lemma length_filter_sum:
  "length (filter P xs) = (\<Sum>x\<leftarrow>xs. if P x then 1 else 0)"
  by (induction xs) simp_all

lemma count_swap:
  "(\<Sum>l\<leftarrow>irows. length (filter (\<lambda>r. a_timestamp r = i_timestamp l) arows)) =
   (\<Sum>r\<leftarrow>arows. length (filter (\<lambda>l. i_timestamp l = a_timestamp r) irows))"
proof (induction irows)
  case Nil
  then show ?case by simp
next
  case (Cons l irows)
  have "(\<Sum>r\<leftarrow>arows. length (filter (\<lambda>l. i_timestamp l = a_timestamp r) (l # irows))) =
        (\<Sum>r\<leftarrow>arows. (if a_timestamp r = i_timestamp l then 1 else 0) +
                      length (filter (\<lambda>l. i_timestamp l = a_timestamp r) irows))"
    by (rule arg_cong [where f = sum_list]) (auto intro: map_cong)
  also have "\<dots> = length (filter (\<lambda>r. a_timestamp r = i_timestamp l) arows) +
                  (\<Sum>r\<leftarrow>arows. length (filter (\<lambda>l. i_timestamp l = a_timestamp r) irows))"
    by (simp add: sum_list_addf length_filter_sum)
  finally show ?case
    using Cons.IH by simp
qed

lemma distinct_filter_le_1:
  "distinct (map f xs) \<Longrightarrow> length (filter (\<lambda>x. f x = k) xs) \<le> 1"
proof (induction xs)
  case Nil
  then show ?case by simp
next
  case (Cons a xs)
  show ?case
  proof (cases "f a = k")
    case True
    with Cons.prems have "filter (\<lambda>x. f x = k) xs = []"
      by (auto simp: filter_empty_conv image_iff)
    with True show ?thesis by simp
  next
    case False
    with Cons show ?thesis by simp
  qed
qed

lemma sum_list_le_length:
  "(\<And>x. x \<in> set xs \<Longrightarrow> g x \<le> (1::nat)) \<Longrightarrow> sum_list (map g xs) \<le> length xs"
  by (induction xs) (simp_all add: add_le_mono [of _ 1, simplified] le_SucI)

lemma merge_le_left:
  assumes "distinct (map a_timestamp arows)"
  shows "length (merge irows arows) \<le> length irows"
  unfolding length_merge
  by (rule sum_list_le_length) (rule distinct_filter_le_1 [OF assms])

lemma merge_le_right:
  assumes "distinct (map i_timestamp irows)"
  shows "length (merge irows arows) \<le> length arows"
  unfolding length_merge count_swap
  by (rule sum_list_le_length) (rule distinct_filter_le_1 [OF assms])

lemma lacks_fields_fails:
  "lacks_expected_fields data \<Longrightarrow> \<exists>err. try_process_data data data_type s e = Inl err"
proof (induction data rule: lacks_expected_fields.induct)
  case (1 ts others)
  then show ?case
    by (auto simp: try_process_data_def to_datetime_def has_from_def Let_def split: sum.splits)
qed (simp_all add: try_process_data_def to_datetime_def has_from_def)

lemma lacks_fields_empty_frame:
  assumes "lacks_expected_fields data"
  shows "process_data data data_type = (EmptyFrame, [Print (ErrorProcessing data_type)])"
    and "process_data_v20 data data_type s e = (EmptyFrame, [Print (ErrorProcessing data_type)])"
  using lacks_fields_fails [OF assms, of data_type start_date_cet end_date_cet]
    lacks_fields_fails [OF assms, of data_type s e]
  by (auto simp: process_data_def process_data_v20_def)

lemma main_v20_with_window:
  assumes "get_valid_datetime True None entries = Some (s, entries1, printed1)"
    and "get_valid_datetime False (Some s) entries1 = Some (e, entries2, printed2)"
  shows "main_v20 entries outcome1 outcome2 =
     Some ([Print Banner] @ printed1 @ printed2 @ [Print (AnalysisPeriod s e)] @
           snd (fetch_data (request_params ''imbalance_volumes'' s e) outcome1) @
           snd (fetch_data (request_params ''normal_activations_total'' s e) outcome2) @
           (if truthy (fst (fetch_data (request_params ''imbalance_volumes'' s e) outcome1)) \<and>
               truthy (fst (fetch_data (request_params ''normal_activations_total'' s e) outcome2))
            then snd (process_data_v20
                   (fst (fetch_data (request_params ''imbalance_volumes'' s e) outcome1))
                   ''Imbalance'' s e) @
                 snd (process_data_v20
                   (fst (fetch_data (request_params ''normal_activations_total'' s e) outcome2))
                   ''Activation'' s e) @
                 (if \<not> empty (fst (process_data_v20
                        (fst (fetch_data (request_params ''imbalance_volumes'' s e) outcome1))
                        ''Imbalance'' s e)) \<and>
                     \<not> empty (fst (process_data_v20
                        (fst (fetch_data (request_params ''normal_activations_total'' s e) outcome2))
                        ''Activation'' s e))
                  then create_visualization_v20
                         (fst (process_data_v20
                            (fst (fetch_data (request_params ''imbalance_volumes'' s e) outcome1))
                            ''Imbalance'' s e))
                         (fst (process_data_v20
                            (fst (fetch_data (request_params ''normal_activations_total'' s e)
                                   outcome2))
                            ''Activation'' s e)) s e @
                       snd (analyze_regulation_v20
                         (fst (process_data_v20
                            (fst (fetch_data (request_params ''imbalance_volumes'' s e) outcome1))
                            ''Imbalance'' s e))
                         (fst (process_data_v20
                            (fst (fetch_data (request_params ''normal_activations_total'' s e)
                                   outcome2))
                            ''Activation'' s e)))
                  else [Print NoDataAvailable])
            else [Print FailedToFetch]),
           entries2)"
  by (simp add: main_v20_def assms split_beta Let_def)

lemma main_v20_on_fixed_window:
  "main_v20 (Wellformed start_date_cet # Wellformed end_date_cet # rest) outcome1 outcome2 =
     Some (Print Banner # map as_v20 (main clock outcome1 outcome2), rest)"
proof -
  have "main_v20 (Wellformed start_date_cet # Wellformed end_date_cet # rest) outcome1 outcome2 =
     (let (imbalance_data, fetched1) = fetch_data imbalance_params outcome1;
          (activation_data, fetched2) = fetch_data activation_params outcome2
      in Some
         ([Print Banner] @ [] @ [] @ [Print (AnalysisPeriod start_date_cet end_date_cet)] @
          fetched1 @ fetched2 @
          (if truthy imbalance_data \<and> truthy activation_data then
             (let (imbalance_df, processed1) = process_data imbalance_data ''Imbalance'';
                  (activation_df, processed2) = process_data activation_data ''Activation''
              in processed1 @ processed2 @
                 (if \<not> empty imbalance_df \<and> \<not> empty activation_df then
                    create_visualization_v20 imbalance_df activation_df
                      start_date_cet end_date_cet @
                    snd (analyze_regulation_v20 imbalance_df activation_df)
                  else [Print NoDataAvailable]))
           else [Print FailedToFetch]),
          rest))"
    by (simp only: main_v20_def window_entries option.case prod.case
          process_data_v20_fixed imbalance_params_def activation_params_def)
  also have "\<dots> = Some (Print Banner # map as_v20 (main clock outcome1 outcome2), rest)"
    by (simp add: main_def Let_def split_beta
          as_v20_fetch as_v20_process as_v20_visualization as_v20_analysis)
  finally show ?thesis .
qed

subsection \<open>The derived columns\<close>

text \<open>
  C1. For every row of the joined analysis table of either script, \<open>appropriate_regulation\<close>
  is true if and only if \<open>baltic_imbalance > 0\<close> and \<open>down_regulation > 0\<close>, or
  \<open>baltic_imbalance < 0\<close> and \<open>up_regulation > 0\<close>; it is false whenever
  \<open>baltic_imbalance = 0\<close>.
\<close>

theorem appropriate_regulation_iff:
  assumes "row \<in> set (fst (analyze_regulation clock imbalance_df activation_df)) \<or>
           row \<in> set (fst (analyze_regulation_v20 imbalance_df activation_df))"
  shows "(appropriate_regulation row \<longleftrightarrow>
            (value_of (baltic_imbalance row) > 0 \<and> value_of (down_regulation row) > 0) \<or>
            (value_of (baltic_imbalance row) < 0 \<and> value_of (up_regulation row) > 0)) \<and>
         (value_of (baltic_imbalance row) = 0 \<longrightarrow> \<not> appropriate_regulation row)"
proof -
  from assms obtain p where "row = derive p \<or> row = add_temporal clock (derive p)"
    using analysis_rows analysis_rows_v20 by blast
  then show ?thesis
    using derive_columns(3) [of p] by (auto simp: add_temporal_columns)
qed

text \<open>
  The rule at an imbalance of 150 MW met by 80 MW up and 20 MW down: the row is in the
  joined table and its indicator is true.
\<close>

theorem appropriate_regulation_iff_witness:
  "derive (ImbalanceRow 28784040 (Float 150), ActivationRow 28784040 (Float 80) (Float 20))
     \<in> set (fst (analyze_regulation_v20 (ImbalanceTable [ImbalanceRow 28784040 (Float 150)])
                   (ActivationTable [ActivationRow 28784040 (Float 80) (Float 20)]))) \<and>
   appropriate_regulation (derive (ImbalanceRow 28784040 (Float 150), ActivationRow 28784040 (Float 80) (Float 20))) \<and>
   value_of (baltic_imbalance
     (derive (ImbalanceRow 28784040 (Float 150), ActivationRow 28784040 (Float 80) (Float 20)))) > 0 \<and>
   value_of (down_regulation
     (derive (ImbalanceRow 28784040 (Float 150), ActivationRow 28784040 (Float 80) (Float 20)))) > 0"
proof -
  have member: "derive (ImbalanceRow 28784040 (Float 150), ActivationRow 28784040 (Float 80) (Float 20))
     \<in> set (fst (analyze_regulation_v20 (ImbalanceTable [ImbalanceRow 28784040 (Float 150)])
                   (ActivationTable [ActivationRow 28784040 (Float 80) (Float 20)])))"
    by (simp add: analyze_regulation_v20_def merge_single Let_def)
  have positive:
    "value_of (baltic_imbalance
       (derive (ImbalanceRow 28784040 (Float 150), ActivationRow 28784040 (Float 80) (Float 20)))) > 0"
    "value_of (down_regulation
       (derive (ImbalanceRow 28784040 (Float 150), ActivationRow 28784040 (Float 80) (Float 20)))) > 0"
    by (simp_all add: derive.simps)
  show ?thesis
    using member positive appropriate_regulation_iff [OF disjI2 [OF member]]
    by blast
qed

text \<open>
  C3, as far as it holds. For every row of the joined analysis table of either script,
  \<open>imbalance_magnitude\<close> is the absolute value of \<open>baltic_imbalance\<close> and
  \<open>regulation_magnitude\<close> is \<open>up_regulation + down_regulation\<close> as the columns compute
  them: modulo \<open>2^64\<close> on int64 columns. So \<open>imbalance_magnitude\<close> has the value
  \<open>|baltic_imbalance|\<close> unless \<open>baltic_imbalance\<close> is the int64 \<open>-2^63\<close>, and on int64
  columns \<open>regulation_magnitude\<close> has the value of the sum when the sum lies from
  \<open>-2^63\<close> up to \<open>2^63 - 1\<close>.
\<close>

theorem magnitudes:
  assumes "row \<in> set (fst (analyze_regulation clock imbalance_df activation_df)) \<or>
           row \<in> set (fst (analyze_regulation_v20 imbalance_df activation_df))"
  shows "imbalance_magnitude row = np_abs (baltic_imbalance row) \<and>
         regulation_magnitude row = np_add (up_regulation row) (down_regulation row) \<and>
         (baltic_imbalance row \<noteq> Int64 (- 9223372036854775808) \<longrightarrow>
            value_of (imbalance_magnitude row) = \<bar>value_of (baltic_imbalance row)\<bar>) \<and>
         (is_int (up_regulation row) \<and> is_int (down_regulation row) \<and>
          - 9223372036854775808 \<le> value_of (up_regulation row) + value_of (down_regulation row) \<and>
          value_of (up_regulation row) + value_of (down_regulation row) < 9223372036854775808 \<longrightarrow>
            value_of (regulation_magnitude row) =
              value_of (up_regulation row) + value_of (down_regulation row))"
proof -
  from assms obtain p where "row = derive p \<or> row = add_temporal clock (derive p)"
    using analysis_rows analysis_rows_v20 by blast
  then have cols: "imbalance_magnitude row = np_abs (baltic_imbalance row)"
    "regulation_magnitude row = np_add (up_regulation row) (down_regulation row)"
    using derive_columns(1,2) [of p] by (auto simp: add_temporal_columns)
  show ?thesis
    using cols np_abs_value [of "baltic_imbalance row"]
      np_add_value [of "up_regulation row" "down_regulation row"]
    by simp
qed

text \<open>
  The magnitudes of a row of the first script with integer readings, at an imbalance of
  -150 MW met by 80 MW up and 20 MW down: 150 and 100.
\<close>

theorem magnitudes_witness:
  "add_temporal cest_clock
     (derive (ImbalanceRow 28784040 (Int64 (- 150)), ActivationRow 28784040 (Int64 80) (Int64 20)))
     \<in> set (fst (analyze_regulation cest_clock
                   (ImbalanceTable [ImbalanceRow 28784040 (Int64 (- 150))])
                   (ActivationTable [ActivationRow 28784040 (Int64 80) (Int64 20)]))) \<and>
   Int64 (- 150) \<noteq> Int64 (- 9223372036854775808) \<and>
   is_int (Int64 80) \<and> is_int (Int64 20) \<and>
   - 9223372036854775808 \<le> value_of (Int64 80) + value_of (Int64 20) \<and>
   value_of (Int64 80) + value_of (Int64 20) < 9223372036854775808 \<and>
   value_of (imbalance_magnitude
     (add_temporal cest_clock
        (derive (ImbalanceRow 28784040 (Int64 (- 150)),
                 ActivationRow 28784040 (Int64 80) (Int64 20))))) = 150 \<and>
   value_of (regulation_magnitude
     (add_temporal cest_clock
        (derive (ImbalanceRow 28784040 (Int64 (- 150)),
                 ActivationRow 28784040 (Int64 80) (Int64 20))))) = 100"
proof -
  have member:
    "add_temporal cest_clock
       (derive (ImbalanceRow 28784040 (Int64 (- 150)), ActivationRow 28784040 (Int64 80) (Int64 20)))
     \<in> set (fst (analyze_regulation cest_clock
                   (ImbalanceTable [ImbalanceRow 28784040 (Int64 (- 150))])
                   (ActivationTable [ActivationRow 28784040 (Int64 80) (Int64 20)])))"
    by (simp add: analyze_regulation_def merge_single Let_def)
  have range: "Int64 (- 150) \<noteq> Int64 (- 9223372036854775808)"
    "- 9223372036854775808 \<le> value_of (Int64 80) + value_of (Int64 20)"
    "value_of (Int64 80) + value_of (Int64 20) < 9223372036854775808"
    by simp_all
  show ?thesis
    using member range magnitudes [OF disjI1 [OF member]]
    by (simp add: add_temporal_columns derive.simps)
qed

text \<open>
  C3 as stated fails on int64 columns. With the integer readings \<open>-2^63\<close> for the
  imbalance and \<open>2^62\<close> for each regulation, the normaliser builds int64 columns and the
  joined row has \<open>-2^63\<close> in both magnitudes, where the absolute value and the sum are
  \<open>2^63\<close>.
\<close>

theorem magnitudes_wrap_counterexample:
  "fst (analyze_regulation_v20
     (fst (process_data_v20
        (Object (Some [\<lparr>rp_from = FromAt 28784040, rp_to = True,
                        rp_values = Some [Int64 (- 9223372036854775808)]\<rparr>]) 0)
        ''Imbalance'' 28784040 28792680))
     (fst (process_data_v20
        (Object (Some [\<lparr>rp_from = FromAt 28784040, rp_to = True,
                        rp_values = Some [Int64 4611686018427387904,
                                          Int64 4611686018427387904]\<rparr>]) 0)
        ''Activation'' 28784040 28792680))) =
   [\<lparr>timestamp = 28784040,
     baltic_imbalance = Int64 (- 9223372036854775808),
     up_regulation = Int64 4611686018427387904,
     down_regulation = Int64 4611686018427387904,
     imbalance_magnitude = Int64 (- 9223372036854775808),
     regulation_magnitude = Int64 (- 9223372036854775808),
     appropriate_regulation = True,
     temporal = None\<rparr>] \<and>
   value_of (Int64 (- 9223372036854775808)) \<noteq> \<bar>value_of (Int64 (- 9223372036854775808))\<bar> \<and>
   value_of (Int64 (- 9223372036854775808)) \<noteq>
     value_of (Int64 4611686018427387904) + value_of (Int64 4611686018427387904)"
  by (simp add: process_data_v20_def try_process_data_def to_datetime_def
        has_from_def has_values_def has_to_def as_series_def
        analyze_regulation_v20_def merge_def Let_def derive.simps)

subsection \<open>The fetcher\<close>

text \<open>
  C7. The fetcher returns the value of the \<open>data\<close> key exactly when the request
  succeeded and the parsed top level is an object with a \<open>data\<close> key, and returns
  \<open>None\<close> in every other case: an error status, a raised exception, a body that is not
  JSON, a top level that is not an object or has no \<open>data\<close> key. It issues one GET
  whatever the outcome, so it never retries.
\<close>

theorem fetch_data_result:
  "(\<not> raise_for_status status \<longrightarrow>
      fetch_data ps (Replied status (Some (TopObject (Some v)))) = (v, [Get ps])) \<and>
   (fst (fetch_data ps outcome) \<noteq> Null \<longrightarrow>
      (\<exists>status'. \<not> raise_for_status status' \<and>
         outcome = Replied status' (Some (TopObject (Some (fst (fetch_data ps outcome))))))) \<and>
   (raise_for_status status'' \<longrightarrow>
      fetch_data ps (Replied status'' parsed) = (Null, [Get ps, Print ErrorFetching])) \<and>
   fetch_data ps RequestRaised = (Null, [Get ps, Print ErrorFetching]) \<and>
   fetch_data ps (Replied status None) = (Null, [Get ps, Print ErrorFetching]) \<and>
   fst (fetch_data ps (Replied status (Some (TopObject None)))) = Null \<and>
   fst (fetch_data ps (Replied status (Some NonObject))) = Null \<and>
   filter is_get (snd (fetch_data ps outcome)) = [Get ps]"
proof -
  have "filter is_get (snd (fetch_data ps outcome)) = [Get ps]"
    by (simp add: fetch_data_def split: http_outcome.splits option.splits body.splits)
  moreover have "fst (fetch_data ps (Replied status (Some (TopObject None)))) = Null"
    "fst (fetch_data ps (Replied status (Some NonObject))) = Null"
    "fetch_data ps (Replied status None) = (Null, [Get ps, Print ErrorFetching])"
    "fetch_data ps RequestRaised = (Null, [Get ps, Print ErrorFetching])"
    by (simp_all add: fetch_data_def)
  ultimately show ?thesis
    using fetch_data_cases [of ps outcome] by (simp add: fetch_data_def)
qed

text \<open>
  A reply 200 whose \<open>data\<close> is an array of three elements is returned as it is; a reply
  500 with the same body gives \<open>None\<close>.
\<close>

theorem fetch_data_result_witness:
  "\<not> raise_for_status 200 \<and>
   fetch_data imbalance_params (Replied 200 (Some (TopObject (Some (Array 3))))) =
     (Array 3, [Get imbalance_params]) \<and>
   fst (fetch_data imbalance_params (Replied 200 (Some (TopObject (Some (Array 3)))))) \<noteq> Null \<and>
   raise_for_status 500 \<and>
   fetch_data imbalance_params (Replied 500 (Some (TopObject (Some (Array 3))))) =
     (Null, [Get imbalance_params, Print ErrorFetching])"
proof -
  have ok: "\<not> raise_for_status 200" and bad: "raise_for_status 500"
    by (simp_all add: raise_for_status_def)
  show ?thesis
    using ok bad
      fetch_data_result [of 200 imbalance_params "Array 3"
        "Replied 200 (Some (TopObject (Some (Array 3))))" 500
        "Some (TopObject (Some (Array 3)))"]
    by simp
qed

subsection \<open>The normaliser\<close>

text \<open>
  C4. For every raw payload and every window, each row of the table that the series
  normaliser returns has a timestamp \<open>t\<close> with \<open>start \<le> t < end\<close>, where the window is
  the one requested (the argument of the second script, the constants of the first), not
  the window of the request, widened by three hours.
\<close>

theorem normalized_rows_in_window:
  "(t \<in> set (timestamps (fst (process_data_v20 data data_type s e))) \<longrightarrow> s \<le> t \<and> t < e) \<and>
   (t' \<in> set (timestamps (fst (process_data data' data_type'))) \<longrightarrow>
      start_date_cet \<le> t' \<and> t' < end_date_cet)"
  using try_process_data_window
  by (auto simp: process_data_v20_def process_data_def split: sum.splits)

text \<open>
  A payload with a record one hour before the window, inside the widened request, and a
  record at the start of the window: only the second one is a row.
\<close>

theorem normalized_rows_in_window_witness:
  "timestamps (fst (process_data_v20
      (Object (Some [\<lparr>rp_from = FromAt 28783980, rp_to = True, rp_values = Some [Float 120]\<rparr>,
                     \<lparr>rp_from = FromAt 28784040, rp_to = True, rp_values = Some [Float 150]\<rparr>]) 0)
      ''Imbalance'' 28784040 28792680)) = [28784040] \<and>
   timestamps (fst (process_data
      (Object (Some [\<lparr>rp_from = FromAt 28783980, rp_to = True, rp_values = Some [Float 120]\<rparr>,
                     \<lparr>rp_from = FromAt 28784040, rp_to = True, rp_values = Some [Float 150]\<rparr>]) 0)
      ''Imbalance'')) = [28784040] \<and>
   start_date_cet \<le> 28784040 \<and> 28784040 < end_date_cet"
proof -
  have rows: "timestamps (fst (process_data_v20
      (Object (Some [\<lparr>rp_from = FromAt 28783980, rp_to = True, rp_values = Some [Float 120]\<rparr>,
                     \<lparr>rp_from = FromAt 28784040, rp_to = True, rp_values = Some [Float 150]\<rparr>]) 0)
      ''Imbalance'' 28784040 28792680)) = [28784040]"
    by (simp add: process_data_v20_def try_process_data_def to_datetime_def
          has_from_def has_values_def has_to_def as_series_def)
  have rows': "timestamps (fst (process_data
      (Object (Some [\<lparr>rp_from = FromAt 28783980, rp_to = True, rp_values = Some [Float 120]\<rparr>,
                     \<lparr>rp_from = FromAt 28784040, rp_to = True, rp_values = Some [Float 150]\<rparr>]) 0)
      ''Imbalance'')) = [28784040]"
    by (simp add: process_data_def try_process_data_def to_datetime_def
          has_from_def has_values_def has_to_def as_series_def start_date_cet_def end_date_cet_def)
  show ?thesis
    using rows rows'
      normalized_rows_in_window [of 28784040
        "Object (Some [\<lparr>rp_from = FromAt 28783980, rp_to = True, rp_values = Some [Float 120]\<rparr>,
                     \<lparr>rp_from = FromAt 28784040, rp_to = True, rp_values = Some [Float 150]\<rparr>]) 0"
        "''Imbalance''" 28784040 28792680 28784040
        "Object (Some [\<lparr>rp_from = FromAt 28783980, rp_to = True, rp_values = Some [Float 120]\<rparr>,
                     \<lparr>rp_from = FromAt 28784040, rp_to = True, rp_values = Some [Float 150]\<rparr>]) 0"
        "''Imbalance''"]
    by simp
qed

text \<open>
  C9, as far as it holds. A payload that lacks the expected fields (not an object, no or an
  empty \<open>timeseries\<close>, no \<open>from\<close>, no \<open>values\<close> or no \<open>to\<close> in any record) makes
  the normaliser of either script print the failure and return the empty table, without
  raising. When both payloads are true for Python and one of them lacks the expected
  fields, \<open>main\<close> prints that no data is available after the two normalisations, and
  neither plots nor analyses.
\<close>

theorem invalid_payload_no_data:
  "(lacks_expected_fields data \<longrightarrow>
      process_data data data_type = (EmptyFrame, [Print (ErrorProcessing data_type)]) \<and>
      process_data_v20 data data_type s e = (EmptyFrame, [Print (ErrorProcessing data_type)])) \<and>
   (\<not> raise_for_status status1 \<and> \<not> raise_for_status status2 \<and>
    truthy data1 \<and> truthy data2 \<and>
    (lacks_expected_fields data1 \<or> lacks_expected_fields data2) \<longrightarrow>
      main clock (Replied status1 (Some (TopObject (Some data1))))
                 (Replied status2 (Some (TopObject (Some data2)))) =
        [Print (AnalysisPeriod start_date_cet end_date_cet),
         Get imbalance_params, Get activation_params] @
        snd (process_data data1 ''Imbalance'') @ snd (process_data data2 ''Activation'') @
        [Print NoDataAvailable])"
proof -
  have "main clock (Replied status1 (Some (TopObject (Some data1))))
                 (Replied status2 (Some (TopObject (Some data2)))) =
        [Print (AnalysisPeriod start_date_cet end_date_cet),
         Get imbalance_params, Get activation_params] @
        snd (process_data data1 ''Imbalance'') @ snd (process_data data2 ''Activation'') @
        [Print NoDataAvailable]"
    if ok: "\<not> raise_for_status status1" "\<not> raise_for_status status2"
      "truthy data1" "truthy data2"
      and bad: "lacks_expected_fields data1 \<or> lacks_expected_fields data2"
  proof -
    from bad have "empty (fst (process_data data1 ''Imbalance'')) \<or>
                   empty (fst (process_data data2 ''Activation''))"
      using lacks_fields_empty_frame(1) by fastforce
    then show ?thesis
      using ok by (auto simp: main_def fetch_data_ok split_beta)
  qed
  then show ?thesis
    using lacks_fields_empty_frame by blast
qed

text \<open>
  An object whose \<open>timeseries\<close> is the empty list is true for Python and lacks the
  expected fields: with it as both payloads, \<open>main\<close> ends on the message that no data is
  available.
\<close>

theorem invalid_payload_no_data_witness:
  "lacks_expected_fields (Object (Some []) 0) \<and> truthy (Object (Some []) 0) \<and>
   \<not> raise_for_status 200 \<and>
   process_data (Object (Some []) 0) ''Imbalance'' =
     (EmptyFrame, [Print (ErrorProcessing ''Imbalance'')]) \<and>
   main cest_clock (Replied 200 (Some (TopObject (Some (Object (Some []) 0)))))
                   (Replied 200 (Some (TopObject (Some (Object (Some []) 0))))) =
     [Print (AnalysisPeriod start_date_cet end_date_cet),
      Get imbalance_params, Get activation_params,
      Print (ErrorProcessing ''Imbalance''), Print (ErrorProcessing ''Activation''),
      Print NoDataAvailable]"
proof -
  have hyps: "lacks_expected_fields (Object (Some []) 0)" "truthy (Object (Some []) 0)"
    "\<not> raise_for_status 200"
    by (simp_all add: raise_for_status_def)
  show ?thesis
    using hyps
      invalid_payload_no_data [of "Object (Some []) 0" "''Imbalance''" 0 0 200 200
        "Object (Some []) 0" "Object (Some []) 0" cest_clock]
      invalid_payload_no_data [of "Object (Some []) 0" "''Activation''" 0 0 200 200
        "Object (Some []) 0" "Object (Some []) 0" cest_clock]
    by simp
qed

text \<open>
  C9 as stated fails at the empty payload: the normaliser does return the empty table for
  the empty object, but \<open>main\<close> never calls it, since the empty object is false for
  Python, and prints the fetch-failure message, not that no data is available.
\<close>

theorem empty_payload_counterexample:
  "lacks_expected_fields (Object None 0) \<and>
   fst (process_data (Object None 0) ''Imbalance'') = EmptyFrame \<and>
   main cest_clock (Replied 200 (Some (TopObject (Some (Object None 0)))))
                   (Replied 200 (Some (TopObject (Some (Object None 0))))) =
     [Print (AnalysisPeriod start_date_cet end_date_cet),
      Get imbalance_params, Get activation_params, Print FailedToFetch] \<and>
   Print NoDataAvailable \<notin> set (main cest_clock
       (Replied 200 (Some (TopObject (Some (Object None 0)))))
       (Replied 200 (Some (TopObject (Some (Object None 0))))))"
  by (simp add: main_def fetch_data_def raise_for_status_def process_data_def
        try_process_data_def to_datetime_def has_from_def)

subsection \<open>The window read from the operator\<close>

text \<open>
  C2 at a span of 30 days and one minute. With the start 2024-09-23 00:00 and the end
  2024-10-23 00:01, both on summer time, the end is accepted at once: \<open>.days\<close> of the span
  is 30, which is not greater than 30. The claim, and the message of the script
  (\<open>Time range cannot exceed 30 days\<close>), have a span of more than 30 days rejected.
\<close>

theorem span_over_30_days_accepted:
  "28827241 - 28784040 > (30 * 1440 :: int) \<and>
   get_valid_datetime False (Some 28784040) [Wellformed 28827241] = Some (28827241, [], [])"
  by (simp add: days_def)

subsection \<open>The merge and the summary\<close>

text \<open>
  C5, as far as it holds. When the timestamps of each normalised table are pairwise
  distinct, the joined analysis table of either script has at most as many rows as the
  smaller of the two tables.
\<close>

theorem inner_join_row_count:
  assumes "distinct (timestamps (ImbalanceTable irows))"
    and "distinct (timestamps (ActivationTable arows))"
  shows "length (fst (analyze_regulation clock (ImbalanceTable irows) (ActivationTable arows)))
           \<le> min (row_count (ImbalanceTable irows)) (row_count (ActivationTable arows)) \<and>
         length (fst (analyze_regulation_v20 (ImbalanceTable irows) (ActivationTable arows)))
           \<le> min (row_count (ImbalanceTable irows)) (row_count (ActivationTable arows))"
  using assms merge_le_left [of arows irows] merge_le_right [of irows arows]
  by (simp add: analyze_regulation_def analyze_regulation_v20_def Let_def)

text \<open>Two hours of imbalance against one hour of activation: one joined row.\<close>

theorem inner_join_row_count_witness:
  "distinct (timestamps (ImbalanceTable [ImbalanceRow 28784040 (Float 150), ImbalanceRow 28784100 (Float 90)])) \<and>
   distinct (timestamps (ActivationTable [ActivationRow 28784100 (Float 80) (Float 20)])) \<and>
   length (fst (analyze_regulation_v20
      (ImbalanceTable [ImbalanceRow 28784040 (Float 150), ImbalanceRow 28784100 (Float 90)])
      (ActivationTable [ActivationRow 28784100 (Float 80) (Float 20)]))) \<le> 1"
proof -
  have hyps:
    "distinct (timestamps (ImbalanceTable [ImbalanceRow 28784040 (Float 150), ImbalanceRow 28784100 (Float 90)]))"
    "distinct (timestamps (ActivationTable [ActivationRow 28784100 (Float 80) (Float 20)]))"
    by simp_all
  show ?thesis
    using hyps inner_join_row_count [OF hyps, of cest_clock] by simp
qed

text \<open>
  C5 as stated fails when a timestamp occurs twice: the normaliser keeps both records of
  an activation payload that have the same \<open>from\<close>, and the merge pairs the single
  imbalance row with each of them, giving two rows from tables of one and two rows.
\<close>

theorem inner_join_grows_counterexample:
  "\<not> length (fst (analyze_regulation_v20
        (fst (process_data_v20
           (Object (Some [\<lparr>rp_from = FromAt 28784040, rp_to = True, rp_values = Some [Float 150]\<rparr>]) 0) ''Imbalance'' 28784040 28792680))
        (fst (process_data_v20
           (Object (Some [\<lparr>rp_from = FromAt 28784040, rp_to = True, rp_values = Some [Float 80, Float 20]\<rparr>,
                        \<lparr>rp_from = FromAt 28784040, rp_to = True, rp_values = Some [Float 5, Float 30]\<rparr>]) 0) ''Activation'' 28784040 28792680))))
      \<le> min (row_count (fst (process_data_v20
                 (Object (Some [\<lparr>rp_from = FromAt 28784040, rp_to = True, rp_values = Some [Float 150]\<rparr>]) 0) ''Imbalance'' 28784040 28792680)))
              (row_count (fst (process_data_v20
                 (Object (Some [\<lparr>rp_from = FromAt 28784040, rp_to = True, rp_values = Some [Float 80, Float 20]\<rparr>,
                        \<lparr>rp_from = FromAt 28784040, rp_to = True, rp_values = Some [Float 5, Float 30]\<rparr>]) 0) ''Activation'' 28784040 28792680)))"
  by (simp add: process_data_v20_def try_process_data_def to_datetime_def
        has_from_def has_values_def has_to_def as_series_def analyze_regulation_v20_def merge_def Let_def)

text \<open>
  C6, as far as it holds. The effectiveness percentage is 100 times the number of rows
  with \<open>appropriate_regulation\<close> over the number of joined rows when the joined table
  is not empty. Nothing guards the quotient: on a joined table without rows it is still
  taken, zero by zero, and the percentage is not a number. Either script prints the summary
  of the rows it returns and writes them to the CSV, whatever their number.
\<close>

theorem effectiveness_percentage:
  "(analysis_df \<noteq> [] \<longrightarrow>
      effectiveness (summarize analysis_df) =
        Finite (100 * real (length (filter appropriate_regulation analysis_df)) /
                  real (length analysis_df))) \<and>
   effectiveness (summarize []) = scale (true_divide 0 0) 100 \<and>
   scale (true_divide 0 0) 100 = NaN \<and>
   snd (analyze_regulation clock (ImbalanceTable irows) (ActivationTable arows)) =
     [Print (RegulationAnalysis
        (summarize (fst (analyze_regulation clock (ImbalanceTable irows) (ActivationTable arows))))),
      ToCsv (fst (analyze_regulation clock (ImbalanceTable irows) (ActivationTable arows))),
      Print AnalysisSaved] \<and>
   snd (analyze_regulation_v20 (ImbalanceTable irows) (ActivationTable arows)) =
     [Print (RegulationAnalysis
        (summarize (fst (analyze_regulation_v20 (ImbalanceTable irows) (ActivationTable arows))))),
      ToCsv (fst (analyze_regulation_v20 (ImbalanceTable irows) (ActivationTable arows))),
      Print AnalysisSaved]"
  by (simp add: summarize_def true_divide_def Let_def analyze_regulation_def
        analyze_regulation_v20_def)

text \<open>One appropriate hour out of two: 50 percent.\<close>

theorem effectiveness_percentage_witness:
  "[derive (ImbalanceRow 28784040 (Float 150), ActivationRow 28784040 (Float 80) (Float 20)),
    derive (ImbalanceRow 28784100 (Float 150), ActivationRow 28784100 (Float 80) (Float 0))] \<noteq> [] \<and>
   effectiveness (summarize
     [derive (ImbalanceRow 28784040 (Float 150), ActivationRow 28784040 (Float 80) (Float 20)),
      derive (ImbalanceRow 28784100 (Float 150), ActivationRow 28784100 (Float 80) (Float 0))]) = Finite 50"
  using effectiveness_percentage
    [of "[derive (ImbalanceRow 28784040 (Float 150), ActivationRow 28784040 (Float 80) (Float 20)),
          derive (ImbalanceRow 28784100 (Float 150), ActivationRow 28784100 (Float 80) (Float 0))]"
        cest_clock "[]" "[]"]
  by (simp add: derive.simps)

text \<open>
  C6 as stated fails on its second half: with one imbalance row and one activation row an
  hour apart, both tables pass the test of \<open>main\<close>, the joined table has no row, and the
  analysis prints a summary whose percentage is the quotient of zero by zero.
\<close>

theorem effectiveness_unguarded_counterexample:
  "\<not> empty (ImbalanceTable [ImbalanceRow 28784040 (Float 150)]) \<and>
   \<not> empty (ActivationTable [ActivationRow 28784100 (Float 80) (Float 20)]) \<and>
   analyze_regulation_v20 (ImbalanceTable [ImbalanceRow 28784040 (Float 150)])
       (ActivationTable [ActivationRow 28784100 (Float 80) (Float 20)]) =
     ([], [Print (RegulationAnalysis
             \<lparr>total_periods = 0, effective_periods = 0,
              effectiveness = scale (true_divide 0 0) 100,
              mean_imbalance_magnitude = NaN, max_imbalance = NaN, min_imbalance = NaN,
              mean_regulation_magnitude = NaN,
              total_imbalance_energy = Int64 0, total_regulation_energy = Int64 0\<rparr>),
           ToCsv [], Print AnalysisSaved]) \<and>
   scale (true_divide 0 0) 100 = NaN"
  by (simp add: analyze_regulation_v20_def merge_def summarize_def true_divide_def
        series_sum_def)

subsection \<open>The two scripts side by side\<close>

text \<open>
  C8, as far as it holds. When the operator enters the window of the first script, the
  second script, on the same outcomes of the two requests, prints a banner and then does
  what the first script does, event by event, with two differences: the down-regulation
  line is plotted with the opposite sign, and the rows written to the CSV lack the columns
  \<open>hour\<close> and \<open>day\<close>. Requests, normalised tables, joined rows in their other columns,
  summary and messages are the same.
\<close>

theorem variants_agree_up_to_sign_and_columns:
  "main_v20 (Wellformed start_date_cet # Wellformed end_date_cet # rest) outcome1 outcome2 =
     Some (Print Banner # map as_v20 (main clock outcome1 outcome2), rest)"
  by (rule main_v20_on_fixed_window)

text \<open>
  One hour of imbalance (150 MW) and of activation (80 MW up, 20 MW down) at the start of
  the window: the figure of the second script, obtained from the run of the first.
\<close>

theorem variants_agree_up_to_sign_and_columns_witness:
  "map_option (figures \<circ> fst)
     (main_v20 [Wellformed start_date_cet, Wellformed end_date_cet]
        (Replied 200 (Some (TopObject (Some (Object (Some
          [\<lparr>rp_from = FromAt 28784040, rp_to = True, rp_values = Some [Float 150]\<rparr>]) 0)))))
        (Replied 200 (Some (TopObject (Some (Object (Some
          [\<lparr>rp_from = FromAt 28784040, rp_to = True, rp_values = Some [Float 80, Float 20]\<rparr>]) 0)))))) =
   Some [\<lparr>imbalance_line = [(28784040, Float 150)], up_line = [(28784040, Float 80)],
           down_line = [(28784040, Float 20)], xlim = (28784040, 28792680)\<rparr>]"
proof -
  have v13: "figures (map as_v20 (main cest_clock
        (Replied 200 (Some (TopObject (Some (Object (Some
          [\<lparr>rp_from = FromAt 28784040, rp_to = True, rp_values = Some [Float 150]\<rparr>]) 0)))))
        (Replied 200 (Some (TopObject (Some (Object (Some
          [\<lparr>rp_from = FromAt 28784040, rp_to = True, rp_values = Some [Float 80, Float 20]\<rparr>]) 0))))))) =
     [\<lparr>imbalance_line = [(28784040, Float 150)], up_line = [(28784040, Float 80)],
       down_line = [(28784040, Float 20)], xlim = (28784040, 28792680)\<rparr>]"
    by (simp add: main_def fetch_data_def raise_for_status_def
        process_data_def try_process_data_def to_datetime_def has_from_def has_values_def
        has_to_def as_series_def start_date_cet_def end_date_cet_def create_visualization_def
        analyze_regulation_def merge_def Let_def)
  show ?thesis
    using v13
      variants_agree_up_to_sign_and_columns [of "[]"
        "(Replied 200 (Some (TopObject (Some (Object (Some
          [\<lparr>rp_from = FromAt 28784040, rp_to = True, rp_values = Some [Float 150]\<rparr>]) 0)))))"
        "(Replied 200 (Some (TopObject (Some (Object (Some
          [\<lparr>rp_from = FromAt 28784040, rp_to = True, rp_values = Some [Float 80, Float 20]\<rparr>]) 0)))))" cest_clock]
    by simp
qed

text \<open>
  C8 as stated fails: with one hour of imbalance (150 MW) and of activation (80 MW up, 20
  MW down) in the window, the figures of the two scripts differ (the down-regulation line
  is at -20 in the first and at 20 in the second) and so do the rows written to the CSV
  (the first script adds hour 0 and day 19989).
\<close>

theorem variants_differ_counterexample:
  "map_option (figures \<circ> fst)
     (main_v20 [Wellformed start_date_cet, Wellformed end_date_cet]
        (Replied 200 (Some (TopObject (Some (Object (Some
          [\<lparr>rp_from = FromAt 28784040, rp_to = True, rp_values = Some [Float 150]\<rparr>]) 0)))))
        (Replied 200 (Some (TopObject (Some (Object (Some
          [\<lparr>rp_from = FromAt 28784040, rp_to = True, rp_values = Some [Float 80, Float 20]\<rparr>]) 0)))))) \<noteq>
   Some (figures (main cest_clock
        (Replied 200 (Some (TopObject (Some (Object (Some
          [\<lparr>rp_from = FromAt 28784040, rp_to = True, rp_values = Some [Float 150]\<rparr>]) 0)))))
        (Replied 200 (Some (TopObject (Some (Object (Some
          [\<lparr>rp_from = FromAt 28784040, rp_to = True, rp_values = Some [Float 80, Float 20]\<rparr>]) 0))))))) \<and>
   map_option (csv_files \<circ> fst)
     (main_v20 [Wellformed start_date_cet, Wellformed end_date_cet]
        (Replied 200 (Some (TopObject (Some (Object (Some
          [\<lparr>rp_from = FromAt 28784040, rp_to = True, rp_values = Some [Float 150]\<rparr>]) 0)))))
        (Replied 200 (Some (TopObject (Some (Object (Some
          [\<lparr>rp_from = FromAt 28784040, rp_to = True, rp_values = Some [Float 80, Float 20]\<rparr>]) 0)))))) \<noteq>
   Some (csv_files (main cest_clock
        (Replied 200 (Some (TopObject (Some (Object (Some
          [\<lparr>rp_from = FromAt 28784040, rp_to = True, rp_values = Some [Float 150]\<rparr>]) 0)))))
        (Replied 200 (Some (TopObject (Some (Object (Some
          [\<lparr>rp_from = FromAt 28784040, rp_to = True, rp_values = Some [Float 80, Float 20]\<rparr>]) 0)))))))"
proof -
  have v20: "main_v20 [Wellformed start_date_cet, Wellformed end_date_cet]
        (Replied 200 (Some (TopObject (Some (Object (Some
          [\<lparr>rp_from = FromAt 28784040, rp_to = True, rp_values = Some [Float 150]\<rparr>]) 0)))))
        (Replied 200 (Some (TopObject (Some (Object (Some
          [\<lparr>rp_from = FromAt 28784040, rp_to = True, rp_values = Some [Float 80, Float 20]\<rparr>]) 0))))) =
     Some (Print Banner # map as_v20 (main cest_clock
        (Replied 200 (Some (TopObject (Some (Object (Some
          [\<lparr>rp_from = FromAt 28784040, rp_to = True, rp_values = Some [Float 150]\<rparr>]) 0)))))
        (Replied 200 (Some (TopObject (Some (Object (Some
          [\<lparr>rp_from = FromAt 28784040, rp_to = True, rp_values = Some [Float 80, Float 20]\<rparr>]) 0)))))), [])"
    by (rule main_v20_on_fixed_window)
  show ?thesis
    unfolding v20
    by (simp add: main_def fetch_data_def raise_for_status_def
        process_data_def try_process_data_def to_datetime_def has_from_def has_values_def
        has_to_def as_series_def start_date_cet_def end_date_cet_def create_visualization_def
        analyze_regulation_def merge_def Let_def drop_temporal_def add_temporal_def
        cest_clock_def derive.simps)
qed

subsection \<open>A false payload\<close>

text \<open>
  C10. When a request succeeds and the value under \<open>data\<close> is false for Python (an empty
  object or an empty list, say), the fetcher returns that value, and \<open>main\<close> of either
  script does what it does when the response has no \<open>data\<close> key: after the two requests
  it prints the fetch-failure message and nothing else, so it neither normalises, analyses
  nor plots. For the second script this is the run once the operator has given a window.
\<close>

theorem falsy_data_is_fetch_failure:
  "\<not> raise_for_status status \<and> \<not> truthy v \<longrightarrow>
     fst (fetch_data ps (Replied status (Some (TopObject (Some v))))) = v \<and>
     main clock (Replied status (Some (TopObject (Some v)))) second_outcome =
       [Print (AnalysisPeriod start_date_cet end_date_cet), Get imbalance_params] @
       snd (fetch_data activation_params second_outcome) @ [Print FailedToFetch] \<and>
     main clock first_outcome (Replied status (Some (TopObject (Some v)))) =
       [Print (AnalysisPeriod start_date_cet end_date_cet)] @
       snd (fetch_data imbalance_params first_outcome) @
       [Get activation_params, Print FailedToFetch] \<and>
     main clock (Replied status (Some (TopObject (Some v)))) second_outcome =
       main clock (Replied status (Some (TopObject None))) second_outcome \<and>
     main clock first_outcome (Replied status (Some (TopObject (Some v)))) =
       main clock first_outcome (Replied status (Some (TopObject None))) \<and>
     main_v20 entries (Replied status (Some (TopObject (Some v)))) second_outcome =
       main_v20 entries (Replied status (Some (TopObject None))) second_outcome \<and>
     main_v20 entries first_outcome (Replied status (Some (TopObject (Some v)))) =
       main_v20 entries first_outcome (Replied status (Some (TopObject None))) \<and>
     (get_valid_datetime True None entries = Some (s, entries_s, printed_s) \<and>
      get_valid_datetime False (Some s) entries_s = Some (e, entries_e, printed_e) \<longrightarrow>
        main_v20 entries (Replied status (Some (TopObject (Some v)))) second_outcome =
          Some ([Print Banner] @ printed_s @ printed_e @
                [Print (AnalysisPeriod s e), Get (request_params ''imbalance_volumes'' s e)] @
                snd (fetch_data (request_params ''normal_activations_total'' s e) second_outcome) @
                [Print FailedToFetch],
                entries_e) \<and>
        main_v20 entries first_outcome (Replied status (Some (TopObject (Some v)))) =
          Some ([Print Banner] @ printed_s @ printed_e @ [Print (AnalysisPeriod s e)] @
                snd (fetch_data (request_params ''imbalance_volumes'' s e) first_outcome) @
                [Get (request_params ''normal_activations_total'' s e), Print FailedToFetch],
                entries_e))"
proof -
  have first: "main_v20 entries (Replied status (Some (TopObject (Some v)))) second_outcome =
          Some ([Print Banner] @ printed_s @ printed_e @
                [Print (AnalysisPeriod s e), Get (request_params ''imbalance_volumes'' s e)] @
                snd (fetch_data (request_params ''normal_activations_total'' s e) second_outcome) @
                [Print FailedToFetch],
                entries_e)"
    and second: "main_v20 entries first_outcome (Replied status (Some (TopObject (Some v)))) =
          Some ([Print Banner] @ printed_s @ printed_e @ [Print (AnalysisPeriod s e)] @
                snd (fetch_data (request_params ''imbalance_volumes'' s e) first_outcome) @
                [Get (request_params ''normal_activations_total'' s e), Print FailedToFetch],
                entries_e)"
    if "\<not> raise_for_status status" "\<not> truthy v"
      and "get_valid_datetime True None entries = Some (s, entries_s, printed_s)"
      and "get_valid_datetime False (Some s) entries_s = Some (e, entries_e, printed_e)"
    using that by (simp_all add: main_v20_with_window fetch_data_ok)
  have rest: "\<not> raise_for_status status \<and> \<not> truthy v \<longrightarrow>
     fst (fetch_data ps (Replied status (Some (TopObject (Some v))))) = v \<and>
     main clock (Replied status (Some (TopObject (Some v)))) second_outcome =
       [Print (AnalysisPeriod start_date_cet end_date_cet), Get imbalance_params] @
       snd (fetch_data activation_params second_outcome) @ [Print FailedToFetch] \<and>
     main clock first_outcome (Replied status (Some (TopObject (Some v)))) =
       [Print (AnalysisPeriod start_date_cet end_date_cet)] @
       snd (fetch_data imbalance_params first_outcome) @
       [Get activation_params, Print FailedToFetch] \<and>
     main clock (Replied status (Some (TopObject (Some v)))) second_outcome =
       main clock (Replied status (Some (TopObject None))) second_outcome \<and>
     main clock first_outcome (Replied status (Some (TopObject (Some v)))) =
       main clock first_outcome (Replied status (Some (TopObject None))) \<and>
     main_v20 entries (Replied status (Some (TopObject (Some v)))) second_outcome =
       main_v20 entries (Replied status (Some (TopObject None))) second_outcome \<and>
     main_v20 entries first_outcome (Replied status (Some (TopObject (Some v)))) =
       main_v20 entries first_outcome (Replied status (Some (TopObject None)))"
    by (auto simp: main_def main_v20_def fetch_data_def split_beta Let_def
             split: option.splits)
  show ?thesis
    using first second rest by blast
qed

text \<open>
  The empty object as imbalance payload, beside a good activation payload: the fetcher
  returns the empty object, which is not \<open>None\<close>, and \<open>main\<close> of either script reports
  a fetch failure, the second one for the window of the first.
\<close>

theorem falsy_data_is_fetch_failure_witness:
  "\<not> raise_for_status 200 \<and> \<not> truthy (Object None 0) \<and> Object None 0 \<noteq> Null \<and>
   fst (fetch_data imbalance_params (Replied 200 (Some (TopObject (Some (Object None 0)))))) =
     Object None 0 \<and>
   main cest_clock (Replied 200 (Some (TopObject (Some (Object None 0)))))
        (Replied 200 (Some (TopObject (Some (Object (Some
          [\<lparr>rp_from = FromAt 28784040, rp_to = True,
            rp_values = Some [Float 80, Float 20]\<rparr>]) 0))))) =
     [Print (AnalysisPeriod start_date_cet end_date_cet), Get imbalance_params,
      Get activation_params, Print FailedToFetch] \<and>
   get_valid_datetime True None [Wellformed start_date_cet, Wellformed end_date_cet] =
     Some (start_date_cet, [Wellformed end_date_cet], []) \<and>
   get_valid_datetime False (Some start_date_cet) [Wellformed end_date_cet] =
     Some (end_date_cet, [], []) \<and>
   main_v20 [Wellformed start_date_cet, Wellformed end_date_cet]
        (Replied 200 (Some (TopObject (Some (Object None 0)))))
        (Replied 200 (Some (TopObject (Some (Object (Some
          [\<lparr>rp_from = FromAt 28784040, rp_to = True,
            rp_values = Some [Float 80, Float 20]\<rparr>]) 0))))) =
     Some ([Print Banner, Print (AnalysisPeriod start_date_cet end_date_cet),
            Get imbalance_params, Get activation_params, Print FailedToFetch], [])"
proof -
  have hyps: "\<not> raise_for_status 200 \<and> \<not> truthy (Object None 0)"
    by (simp add: raise_for_status_def)
  have window:
    "get_valid_datetime True None [Wellformed start_date_cet, Wellformed end_date_cet] =
       Some (start_date_cet, [Wellformed end_date_cet], []) \<and>
     get_valid_datetime False (Some start_date_cet) [Wellformed end_date_cet] =
       Some (end_date_cet, [], [])"
    by (simp add: start_date_cet_def end_date_cet_def days_def)
  have fetched: "snd (fetch_data ps
        (Replied 200 (Some (TopObject (Some (Object (Some
          [\<lparr>rp_from = FromAt 28784040, rp_to = True,
            rp_values = Some [Float 80, Float 20]\<rparr>]) 0)))))) = [Get ps]" for ps
    by (simp add: fetch_data_def raise_for_status_def)
  note at_input = falsy_data_is_fetch_failure [where status = 200 and v = "Object None 0"
        and ps = imbalance_params and clock = cest_clock
        and second_outcome = "(Replied 200 (Some (TopObject (Some (Object (Some
          [\<lparr>rp_from = FromAt 28784040, rp_to = True,
            rp_values = Some [Float 80, Float 20]\<rparr>]) 0)))))"
        and first_outcome = RequestRaised
        and entries = "[Wellformed start_date_cet, Wellformed end_date_cet]"
        and s = start_date_cet and entries_s = "[Wellformed end_date_cet]" and printed_s = "[]"
        and e = end_date_cet and entries_e = "[]" and printed_e = "[]"]
  from hyps window at_input
  have returned:
    "fst (fetch_data imbalance_params (Replied 200 (Some (TopObject (Some (Object None 0)))))) =
       Object None 0"
    and v13: "main cest_clock (Replied 200 (Some (TopObject (Some (Object None 0)))))
        (Replied 200 (Some (TopObject (Some (Object (Some
          [\<lparr>rp_from = FromAt 28784040, rp_to = True,
            rp_values = Some [Float 80, Float 20]\<rparr>]) 0))))) =
       [Print (AnalysisPeriod start_date_cet end_date_cet), Get imbalance_params] @
       snd (fetch_data activation_params
        (Replied 200 (Some (TopObject (Some (Object (Some
          [\<lparr>rp_from = FromAt 28784040, rp_to = True,
            rp_values = Some [Float 80, Float 20]\<rparr>]) 0)))))) @
       [Print FailedToFetch]"
    and v20: "main_v20 [Wellformed start_date_cet, Wellformed end_date_cet]
        (Replied 200 (Some (TopObject (Some (Object None 0)))))
        (Replied 200 (Some (TopObject (Some (Object (Some
          [\<lparr>rp_from = FromAt 28784040, rp_to = True,
            rp_values = Some [Float 80, Float 20]\<rparr>]) 0))))) =
       Some ([Print Banner] @ [] @ [] @
             [Print (AnalysisPeriod start_date_cet end_date_cet),
              Get (request_params ''imbalance_volumes'' start_date_cet end_date_cet)] @
             snd (fetch_data
                    (request_params ''normal_activations_total'' start_date_cet end_date_cet)
        (Replied 200 (Some (TopObject (Some (Object (Some
          [\<lparr>rp_from = FromAt 28784040, rp_to = True,
            rp_values = Some [Float 80, Float 20]\<rparr>]) 0)))))) @
             [Print FailedToFetch], [])"
    by blast+
  have shape: "main cest_clock (Replied 200 (Some (TopObject (Some (Object None 0)))))
        (Replied 200 (Some (TopObject (Some (Object (Some
          [\<lparr>rp_from = FromAt 28784040, rp_to = True,
            rp_values = Some [Float 80, Float 20]\<rparr>]) 0))))) =
     [Print (AnalysisPeriod start_date_cet end_date_cet), Get imbalance_params,
      Get activation_params, Print FailedToFetch]"
    "main_v20 [Wellformed start_date_cet, Wellformed end_date_cet]
        (Replied 200 (Some (TopObject (Some (Object None 0)))))
        (Replied 200 (Some (TopObject (Some (Object (Some
          [\<lparr>rp_from = FromAt 28784040, rp_to = True,
            rp_values = Some [Float 80, Float 20]\<rparr>]) 0))))) =
     Some ([Print Banner, Print (AnalysisPeriod start_date_cet end_date_cet),
            Get imbalance_params, Get activation_params, Print FailedToFetch], [])"
    unfolding v13 v20 by (simp_all add: fetched imbalance_params_def activation_params_def)
  show ?thesis
    using hyps window returned shape by simp
qed

end
